theory Spec2Isabelle
  imports Main "HOL-Library.Word"
begin

section \<open>Python values and text\<close>

text \<open>
  The service of \<^verbatim>\<open>main.py\<close> handles values produced by a JSON decoder. They are
  modelled as a datatype of Python values: \<^verbatim>\<open>None\<close>, \<^verbatim>\<open>bool\<close>, \<^verbatim>\<open>int\<close>
  (unbounded), \<^verbatim>\<open>float\<close> (its IEEE 754 binary64 bit pattern), \<^verbatim>\<open>str\<close>,
  \<^verbatim>\<open>list\<close> and \<^verbatim>\<open>dict\<close>. A dict decoded from JSON has string keys and keeps
  insertion order; it is an association list whose keys are looked up with \<open>map_of\<close>.

  A Python \<^verbatim>\<open>str\<close> is a sequence of code points. A \<open>string\<close> here is a list of
  \<open>char\<close>, each standing for one code point in the range U+0000 .. U+00FF, so that
  \<open>length\<close>, \<open>take\<close> and \<open>drop\<close> count what Python's \<^verbatim>\<open>len\<close> and slices count.
\<close>

datatype pyval =
    PNone
  | PBool bool
  | PInt int
  | PFloat "64 word"
  | PStr string
  | PList "pyval list"
  | PDict "(string \<times> pyval) list"

text \<open>Truth value testing, as used by \<^verbatim>\<open>or\<close>: a float is false iff it is \<open>\<plusminus>0.0\<close>.\<close>

fun truthy :: "pyval \<Rightarrow> bool" where
  "truthy PNone = False"
| "truthy (PBool b) = b"
| "truthy (PInt i) = (i \<noteq> 0)"
| "truthy (PFloat w) = (push_bit 1 w \<noteq> 0)"
| "truthy (PStr s) = (s \<noteq> [])"
| "truthy (PList xs) = (xs \<noteq> [])"
| "truthy (PDict d) = (d \<noteq> [])"

definition py_or :: "pyval \<Rightarrow> pyval \<Rightarrow> pyval" where
  "py_or a b = (if truthy a then a else b)"

fun is_dict :: "pyval \<Rightarrow> bool" where
  "is_dict (PDict d) = True"
| "is_dict v = False"

subsection \<open>String methods\<close>

text \<open>\<^verbatim>\<open>str.isspace\<close> on one code point below U+0100.\<close>

definition isspace :: "char \<Rightarrow> bool" where
  "isspace c \<longleftrightarrow>
     (let n = (of_char c :: nat)
      in (9 \<le> n \<and> n \<le> 13) \<or> (28 \<le> n \<and> n \<le> 32) \<or> n = 133 \<or> n = 160)"

definition lstrip_where :: "(char \<Rightarrow> bool) \<Rightarrow> string \<Rightarrow> string" where
  "lstrip_where P s = dropWhile P s"

definition rstrip_where :: "(char \<Rightarrow> bool) \<Rightarrow> string \<Rightarrow> string" where
  "rstrip_where P s = rev (dropWhile P (rev s))"

definition strip_where :: "(char \<Rightarrow> bool) \<Rightarrow> string \<Rightarrow> string" where
  "strip_where P s = rstrip_where P (lstrip_where P s)"

text \<open>\<^verbatim>\<open>s.strip()\<close> and \<^verbatim>\<open>s.strip(chars)\<close>.\<close>

definition strip :: "string \<Rightarrow> string" where
  "strip s = strip_where isspace s"

definition strip_chars :: "string \<Rightarrow> string \<Rightarrow> string" where
  "strip_chars s chars = strip_where (\<lambda>c. c \<in> set chars) s"

definition startswith :: "string \<Rightarrow> string \<Rightarrow> bool" where
  "startswith s p \<longleftrightarrow> take (length p) s = p"

text \<open>\<^verbatim>\<open>str.lower\<close>: the cased code points below U+0100 are A-Z, U+00C0 .. U+00D6 and
  U+00D8 .. U+00DE; each maps to the code point 32 above it.\<close>

definition lower_char :: "char \<Rightarrow> char" where
  "lower_char c =
     (let n = (of_char c :: nat)
      in if (65 \<le> n \<and> n \<le> 90) \<or> (192 \<le> n \<and> n \<le> 222 \<and> n \<noteq> 215)
         then char_of (n + 32) else c)"

definition lower :: "string \<Rightarrow> string" where
  "lower s = map lower_char s"

text \<open>\<^verbatim>\<open>s.find(c)\<close> and \<^verbatim>\<open>s.rfind(c)\<close> for a one-character needle: the lowest and
  the highest index of \<open>c\<close>, or \<open>-1\<close>.\<close>

fun find_py :: "string \<Rightarrow> char \<Rightarrow> int" where
  "find_py [] c = -1"
| "find_py (x # xs) c =
     (if x = c then 0 else (let r = find_py xs c in if r = -1 then -1 else r + 1))"

definition rfind :: "string \<Rightarrow> char \<Rightarrow> int" where
  "rfind s c = (let r = find_py (rev s) c in if r = -1 then -1 else int (length s) - 1 - r)"

text \<open>The slice \<^verbatim>\<open>s[a:b]\<close>: a negative bound counts from the end, and both bounds are
  clamped to the string.\<close>

definition slice_bound :: "nat \<Rightarrow> int \<Rightarrow> nat" where
  "slice_bound n i = (if i < 0 then nat (max 0 (i + int n)) else min (nat i) n)"

definition py_slice :: "string \<Rightarrow> int \<Rightarrow> int \<Rightarrow> string" where
  "py_slice s a b = drop (slice_bound (length s) a) (take (slice_bound (length s) b) s)"

definition slice_from :: "string \<Rightarrow> int \<Rightarrow> string" where
  "slice_from s a = drop (slice_bound (length s) a) s"

definition slice_to :: "string \<Rightarrow> int \<Rightarrow> string" where
  "slice_to s b = take (slice_bound (length s) b) s"

subsection \<open>Subscripts and \<^verbatim>\<open>dict.get\<close>\<close>

text \<open>
  \<^verbatim>\<open>v[key]\<close> with a string key and \<^verbatim>\<open>v[i]\<close> with an integer. \<open>None\<close> stands for the
  exception the subscript raises (\<^verbatim>\<open>KeyError\<close>, \<^verbatim>\<open>IndexError\<close> or \<^verbatim>\<open>TypeError\<close>);
  the only caller catches \<^verbatim>\<open>Exception\<close> and does not tell them apart.
\<close>

fun getitem_key :: "pyval \<Rightarrow> string \<Rightarrow> pyval option" where
  "getitem_key (PDict d) k = map_of d k"
| "getitem_key v k = None"

definition seq_index :: "'a list \<Rightarrow> int \<Rightarrow> 'a option" where
  "seq_index xs i =
     (let n = int (length xs); j = (if i < 0 then n + i else i)
      in if 0 \<le> j \<and> j < n then Some (xs ! nat j) else None)"

fun getitem_int :: "pyval \<Rightarrow> int \<Rightarrow> pyval option" where
  "getitem_int (PList xs) i = seq_index xs i"
| "getitem_int (PStr s) i = map_option (\<lambda>c. PStr [c]) (seq_index s i)"
| "getitem_int v i = None"

section \<open>Errors and the outside world\<close>

text \<open>
  The outcome of a call is \<open>error + 'a\<close>. \<open>HTTPException\<close> is the exception the source
  raises itself, with its status code and detail. The others are exceptions that no
  handler of the source catches: \<open>AttributeError\<close> from calling a method on a value that
  lacks it, \<open>DecoderException\<close> for an exception that leaves \<^verbatim>\<open>resp.json()\<close>, or
  that leaves \<^verbatim>\<open>json.loads\<close> without being a \<^verbatim>\<open>JSONDecodeError\<close>, and
  \<open>ResponseValidationError\<close> for a returned value that does not fit the response model
  of the route.
\<close>

datatype error =
    HTTPException int string
  | AttributeError
  | DecoderException
  | ResponseValidationError

text \<open>What a JSON decoder does on a text: it returns a value, raises
  \<^verbatim>\<open>JSONDecodeError\<close>, or raises something else.\<close>

datatype loads_result = Parsed pyval | JSONDecodeError | OtherException

text \<open>The arguments of \<^verbatim>\<open>requests.post\<close>; \<open>payload\<close> is the value handed to
  \<^verbatim>\<open>json.dumps\<close> for the body, \<open>timeout\<close> is in seconds.\<close>

record http_request =
  url :: string
  params :: "(string \<times> string) list"
  headers :: "(string \<times> string) list"
  payload :: pyval
  timeout :: nat

text \<open>What the source reads of a response: \<^verbatim>\<open>status_code\<close>, \<^verbatim>\<open>text\<close> and the
  outcome of \<^verbatim>\<open>json()\<close>.\<close>

record response =
  status_code :: int
  resp_text :: string
  resp_json :: loads_result

datatype post_result = RequestException string | Response response

text \<open>The collaborators of the service: the process environment, the HTTP client and
  the JSON decoder \<^verbatim>\<open>json.loads\<close>.\<close>

record world =
  getenv :: "string \<Rightarrow> string option"
  post :: "http_request \<Rightarrow> post_result"
  loads :: "string \<Rightarrow> loads_result"

section \<open>The service\<close>

definition GEMINI_ENDPOINT :: string where
  "GEMINI_ENDPOINT =
     ''https://generativelanguage.googleapis.com/v1beta/models/gemini-1.5-flash-latest:generateContent''"

definition SYSTEM_INSTRUCTIONS :: string where
  "SYSTEM_INSTRUCTIONS =
     ''You are a nutrition and supplement label parser. Extract structured data as JSON. '' @
     ''When values are given per serving, try to compute per 100 g if serving mass in grams is present. '' @
     ''Return a compact JSON only, no extra commentary. Keys: name, serving_size_g (number or null), per_100g (object), per_serving (object or null), notes (string). '' @
     ''per_100g should include as available: calories_kcal, protein_g, carbs_g, sugar_g, fiber_g, fat_g, saturated_fat_g, trans_fat_g, sodium_mg, potassium_mg, cholesterol_mg, calcium_mg, iron_mg, vitamin_c_mg, vitamin_d_ug, vitamin_b12_ug, magnesium_mg, zinc_mg, others as found. ''"

subsection \<open>\<^verbatim>\<open>call_gemini\<close>\<close>

text \<open>The request of lines 73-93.\<close>

definition gemini_request :: "string \<Rightarrow> string \<Rightarrow> string \<Rightarrow> http_request" where
  "gemini_request api_key image_b64 label_type_arg =
     \<lparr> url = GEMINI_ENDPOINT,
       params = [(''key'', api_key)],
       headers = [(''Content-Type'', ''application/json'')],
       payload =
         PDict [(''contents'', PList [PDict [(''parts'', PList [
           PDict [(''text'',
             PStr (SYSTEM_INSTRUCTIONS @ '' Label type: '' @ label_type_arg @ ''. Output pure JSON.''))],
           PDict [(''inlineData'',
             PDict [(''mimeType'', PStr ''image/jpeg''), (''data'', PStr image_b64)])]])]])],
       timeout = 30 \<rparr>"

text \<open>Line 102: \<^verbatim>\<open>data["candidates"][0]["content"]["parts"][0]["text"]\<close>.\<close>

definition envelope_text :: "pyval \<Rightarrow> pyval option" where
  "envelope_text data =
     Option.bind (getitem_key data ''candidates'') (\<lambda>candidates.
     Option.bind (getitem_int candidates 0) (\<lambda>candidate.
     Option.bind (getitem_key candidate ''content'') (\<lambda>content.
     Option.bind (getitem_key content ''parts'') (\<lambda>parts.
     Option.bind (getitem_int parts 0) (\<lambda>part.
     getitem_key part ''text'')))))"

text \<open>Lines 107-114: the text is trimmed, a leading code fence and a language hint are
  removed, and the text is trimmed again.\<close>

definition clean_text :: "string \<Rightarrow> string" where
  "clean_text text_in =
     (let text_stripped = strip text_in;
          text_stripped =
            (if startswith text_stripped ''```''
             then (let text_stripped = strip_chars text_stripped ''`''
                   in if startswith (lower text_stripped) ''json''
                      then slice_from text_stripped 4 else text_stripped)
             else text_stripped)
      in strip text_stripped)"

text \<open>Lines 116-130: the direct parse, and on \<^verbatim>\<open>JSONDecodeError\<close> the parse of the
  text between the first opening and the last closing brace.\<close>

definition parse_cleaned :: "(string \<Rightarrow> loads_result) \<Rightarrow> string \<Rightarrow> error + pyval" where
  "parse_cleaned loads_fn text_stripped =
     (case loads_fn text_stripped of
        Parsed parsed \<Rightarrow> Inr parsed
      | OtherException \<Rightarrow> Inl DecoderException
      | JSONDecodeError \<Rightarrow>
          (let start = find_py text_stripped (CHR ''{'');
               endp = rfind text_stripped (CHR ''}'')
           in if start \<noteq> -1 \<and> endp \<noteq> -1 \<and> endp > start
              then (case loads_fn (py_slice text_stripped start (endp + 1)) of
                      Parsed parsed \<Rightarrow> Inr parsed
                    | _ \<Rightarrow> Inl (HTTPException 500 ''Failed to parse JSON from Gemini output''))
              else Inl (HTTPException 500 ''No JSON found in Gemini output'')))"

text \<open>Lines 107-130 together: the repair of the model's answer.\<close>

definition repair :: "(string \<Rightarrow> loads_result) \<Rightarrow> pyval \<Rightarrow> error + pyval" where
  "repair loads_fn text_val =
     (case text_val of
        PStr s \<Rightarrow> parse_cleaned loads_fn (clean_text s)
      | _ \<Rightarrow> Inl AttributeError)"

text \<open>Lines 97-130: what is done with a response.\<close>

definition read_response :: "(string \<Rightarrow> loads_result) \<Rightarrow> response \<Rightarrow> error + pyval" where
  "read_response loads_fn resp =
     (if status_code resp \<noteq> 200
      then Inl (HTTPException (status_code resp)
                  (''Gemini error: '' @ slice_to (resp_text resp) 500))
      else (case resp_json resp of
              Parsed data \<Rightarrow>
                (case envelope_text data of
                   None \<Rightarrow> Inl (HTTPException 500 ''Unexpected Gemini response format'')
                 | Some text_val \<Rightarrow> repair loads_fn text_val)
            | _ \<Rightarrow> Inl DecoderException))"

text \<open>The whole function. Its result comes with the list of requests that were handed
  to \<^verbatim>\<open>requests.post\<close>.\<close>

definition call_gemini ::
  "world \<Rightarrow> string \<Rightarrow> string \<Rightarrow> (error + pyval) \<times> http_request list" where
  "call_gemini w image_b64 label_type_arg =
     (let api_key = (case getenv w ''GEMINI_API_KEY'' of
                       None \<Rightarrow> []
                     | Some k \<Rightarrow> (if k \<noteq> [] then k else []))
      in if api_key = []
         then (Inl (HTTPException 500 ''GEMINI_API_KEY not set on server''), [])
         else (let request = gemini_request api_key image_b64 label_type_arg
               in case post w request of
                    RequestException e \<Rightarrow>
                      (Inl (HTTPException 502 (''Gemini request failed: '' @ e)), [request])
                  | Response resp \<Rightarrow> (read_response (loads w) resp, [request])))"

subsection \<open>\<^verbatim>\<open>parse_label\<close>\<close>

record ParseLabelRequest =
  image_base64 :: string
  label_type :: "string option"

text \<open>\<^verbatim>\<open>parsed.get(key)\<close>: only a dict has the method.\<close>

fun py_get :: "pyval \<Rightarrow> string \<Rightarrow> error + pyval" where
  "py_get (PDict d) k = Inr (case map_of d k of None \<Rightarrow> PNone | Some v \<Rightarrow> v)"
| "py_get v k = Inl AttributeError"

definition and_then :: "error + 'a \<Rightarrow> ('a \<Rightarrow> error + 'b) \<Rightarrow> error + 'b" where
  "and_then r f = (case r of Inl e \<Rightarrow> Inl e | Inr x \<Rightarrow> f x)"

text \<open>Lines 138-152.\<close>

definition normalize :: "pyval \<Rightarrow> error + pyval" where
  "normalize parsed =
     and_then (py_get parsed ''name'') (\<lambda>name.
     and_then (py_get parsed ''serving_size_g'') (\<lambda>serving_size_g.
     and_then (py_get parsed ''per_100g'') (\<lambda>got.
       (let per_100g = py_or got (PDict []) in
     and_then (py_get parsed ''per_serving'') (\<lambda>per_serving.
     and_then (py_get parsed ''notes'') (\<lambda>notes.
       Inr (PDict [(''name'', name),
                   (''serving_size_g'', serving_size_g),
                   (''per_100g'', per_100g),
                   (''per_serving'', per_serving),
                   (''notes'', notes),
                   (''raw'', parsed)])))))))"

text \<open>Line 135: \<^verbatim>\<open>req.label_type or "nutrition"\<close>.\<close>

definition label_type_or_default :: "ParseLabelRequest \<Rightarrow> string" where
  "label_type_or_default req =
     (case label_type req of
        None \<Rightarrow> ''nutrition''
      | Some s \<Rightarrow> (if s \<noteq> [] then s else ''nutrition''))"

definition parse_label ::
  "world \<Rightarrow> ParseLabelRequest \<Rightarrow> (error + pyval) \<times> http_request list" where
  "parse_label w req =
     (case call_gemini w (image_base64 req) (label_type_or_default req) of
        (Inl e, sent) \<Rightarrow> (Inl e, sent)
      | (Inr parsed, sent) \<Rightarrow> (normalize parsed, sent))"

subsection \<open>The route and its response model\<close>

text \<open>
  Lines 30-36 and 133: the route is declared with
  \<^verbatim>\<open>response_model=ParseLabelResponse\<close>, so the value the handler returns is validated
  field by field against the class before it is sent, and a field that does not fit
  raises \<^verbatim>\<open>ResponseValidationError\<close>.
  \<^verbatim>\<open>
  class ParseLabelResponse(BaseModel):
      name: Optional[str] = None
      serving_size_g: Optional[float] = None
      per_100g: Dict[str, Any] = {}
      per_serving: Optional[Dict[str, Any]] = None
      notes: Optional[str] = None
      raw: Optional[Dict[str, Any]] = None
  \<close>
  How a value becomes a \<^verbatim>\<open>str\<close> or a \<^verbatim>\<open>float\<close>, or is refused, is the validation
  library's business and a parameter here. A value fits \<^verbatim>\<open>Dict[str, Any]\<close> when it is
  a dict: decoded from JSON its keys are strings, and its values are kept as they are.
  \<^verbatim>\<open>Optional[T]\<close> lets \<^verbatim>\<open>None\<close> through. A key that is missing takes the default of
  its field.
\<close>

record coercions =
  to_str :: "pyval \<Rightarrow> pyval option"
  to_float :: "pyval \<Rightarrow> pyval option"

fun dict_str_any :: "pyval \<Rightarrow> pyval option" where
  "dict_str_any (PDict d) = Some (PDict d)"
| "dict_str_any v = None"

definition optional :: "(pyval \<Rightarrow> pyval option) \<Rightarrow> pyval \<Rightarrow> pyval option" where
  "optional f v = (case v of PNone \<Rightarrow> Some PNone | _ \<Rightarrow> f v)"

definition field_value :: "(string \<times> pyval) list \<Rightarrow> string \<Rightarrow> pyval \<Rightarrow> pyval" where
  "field_value r k default_value = (case map_of r k of None \<Rightarrow> default_value | Some v \<Rightarrow> v)"

definition ParseLabelResponse_validate :: "coercions \<Rightarrow> pyval \<Rightarrow> error + pyval" where
  "ParseLabelResponse_validate c content =
     (case content of
        PDict r \<Rightarrow>
          (case
             Option.bind (optional (to_str c) (field_value r ''name'' PNone)) (\<lambda>name.
             Option.bind (optional (to_float c) (field_value r ''serving_size_g'' PNone))
               (\<lambda>serving_size_g.
             Option.bind (dict_str_any (field_value r ''per_100g'' (PDict []))) (\<lambda>per_100g.
             Option.bind (optional dict_str_any (field_value r ''per_serving'' PNone))
               (\<lambda>per_serving.
             Option.bind (optional (to_str c) (field_value r ''notes'' PNone)) (\<lambda>notes.
             Option.bind (optional dict_str_any (field_value r ''raw'' PNone)) (\<lambda>raw.
               Some (PDict [(''name'', name),
                            (''serving_size_g'', serving_size_g),
                            (''per_100g'', per_100g),
                            (''per_serving'', per_serving),
                            (''notes'', notes),
                            (''raw'', raw)])))))))
           of
             None \<Rightarrow> Inl ResponseValidationError
           | Some validated \<Rightarrow> Inr validated)
      | _ \<Rightarrow> Inl ResponseValidationError)"

text \<open>The operation \<^verbatim>\<open>POST /api/parse-label\<close>: the handler, then the response model.\<close>

definition parse_label_route ::
  "coercions \<Rightarrow> world \<Rightarrow> ParseLabelRequest \<Rightarrow> (error + pyval) \<times> http_request list" where
  "parse_label_route c w req =
     (case parse_label w req of
        (Inl e, sent) \<Rightarrow> (Inl e, sent)
      | (Inr content, sent) \<Rightarrow> (ParseLabelResponse_validate c content, sent))"

section \<open>Notions of the specification\<close>

text \<open>
  The whitespace of a JSON text (RFC 8259): space, horizontal tab, line feed and
  carriage return.
\<close>

definition json_ws :: "char \<Rightarrow> bool" where
  "json_ws c \<longleftrightarrow> c = CHR '' '' \<or> c = CHR 0x09 \<or> c = CHR 0x0A \<or> c = CHR 0x0D"

text \<open>
  What is assumed of a JSON decoder where a claim compares the repair with a plain parse
  of the same text: a text it accepts is a value with JSON whitespace around it, the
  value neither begins nor ends with a whitespace character, and the value alone decodes
  to the same result. \<^verbatim>\<open>json.loads\<close> skips exactly this whitespace before and after
  the value.
\<close>

definition skips_json_whitespace :: "(string \<Rightarrow> loads_result) \<Rightarrow> bool" where
  "skips_json_whitespace loads_fn \<longleftrightarrow>
     (\<forall>s v. loads_fn s = Parsed v \<longrightarrow>
        (let core = strip_where json_ws s
         in core \<noteq> [] \<and> \<not> isspace (hd core) \<and> \<not> isspace (last core) \<and>
            loads_fn core = Parsed v))"

text \<open>
  A brace pair: some opening brace with a closing brace after it. The text between the
  braces runs from the first opening brace to the last closing brace, both included.
  Both are written with \<open>dropWhile\<close>, independently of the indices that
  \<^verbatim>\<open>find\<close> and \<^verbatim>\<open>rfind\<close> compute.
\<close>

definition has_brace_pair :: "string \<Rightarrow> bool" where
  "has_brace_pair s \<longleftrightarrow> CHR ''}'' \<in> set (dropWhile (\<lambda>c. c \<noteq> CHR ''{'') s)"

definition between_braces :: "string \<Rightarrow> string" where
  "between_braces s =
     rev (dropWhile (\<lambda>c. c \<noteq> CHR ''}'') (rev (dropWhile (\<lambda>c. c \<noteq> CHR ''{'') s)))"

text \<open>
  The structural path \<^verbatim>\<open>candidates[0].content.parts[0].text\<close> of an envelope: an
  object whose \<^verbatim>\<open>candidates\<close> is an array that starts with an object, whose
  \<^verbatim>\<open>content\<close> is an object, whose \<^verbatim>\<open>parts\<close> is an array that starts with an
  object that has a \<^verbatim>\<open>text\<close>.
\<close>

fun part_has_text :: "pyval \<Rightarrow> bool" where
  "part_has_text (PDict p) = (map_of p ''text'' \<noteq> None)"
| "part_has_text v = False"

fun parts_have_text :: "pyval \<Rightarrow> bool" where
  "parts_have_text (PList (part # ps)) = part_has_text part"
| "parts_have_text v = False"

fun content_has_text :: "pyval \<Rightarrow> bool" where
  "content_has_text (PDict ct) =
     (case map_of ct ''parts'' of None \<Rightarrow> False | Some parts \<Rightarrow> parts_have_text parts)"
| "content_has_text v = False"

fun candidate_has_text :: "pyval \<Rightarrow> bool" where
  "candidate_has_text (PDict c) =
     (case map_of c ''content'' of None \<Rightarrow> False | Some content \<Rightarrow> content_has_text content)"
| "candidate_has_text v = False"

fun candidates_have_text :: "pyval \<Rightarrow> bool" where
  "candidates_have_text (PList (candidate # cs)) = candidate_has_text candidate"
| "candidates_have_text v = False"

fun has_text_path :: "pyval \<Rightarrow> bool" where
  "has_text_path (PDict d) =
     (case map_of d ''candidates'' of
        None \<Rightarrow> False
      | Some candidates \<Rightarrow> candidates_have_text candidates)"
| "has_text_path v = False"

text \<open>
  The upstream model replies to the request of \<open>req\<close> with the response \<open>resp\<close>: the
  credential is set and the HTTP client returns \<open>resp\<close> for the request built from it.
\<close>

definition upstream_replies :: "world \<Rightarrow> ParseLabelRequest \<Rightarrow> response \<Rightarrow> bool" where
  "upstream_replies w req resp \<longleftrightarrow>
     (case getenv w ''GEMINI_API_KEY'' of
        None \<Rightarrow> False
      | Some k \<Rightarrow> k \<noteq> [] \<and>
          post w (gemini_request k (image_base64 req) (label_type_or_default req))
            = Response resp)"

text \<open>The upstream model answers with the text \<open>text_val\<close>: the credential is set, and
  the HTTP client returns a response with status 200 and an envelope that carries
  \<open>text_val\<close>.\<close>

definition model_answers :: "world \<Rightarrow> ParseLabelRequest \<Rightarrow> pyval \<Rightarrow> bool" where
  "model_answers w req text_val \<longleftrightarrow>
     (case getenv w ''GEMINI_API_KEY'' of
        None \<Rightarrow> False
      | Some k \<Rightarrow> k \<noteq> [] \<and>
          (case post w (gemini_request k (image_base64 req) (label_type_or_default req)) of
             RequestException e \<Rightarrow> False
           | Response resp \<Rightarrow> status_code resp = 200 \<and>
               (case resp_json resp of
                  Parsed data \<Rightarrow> envelope_text data = Some text_val
                | JSONDecodeError \<Rightarrow> False
                | OtherException \<Rightarrow> False)))"

section \<open>Fixtures\<close>

text \<open>
  A decoder that knows a fixed set of documents, with JSON whitespace allowed around
  them. Like \<^verbatim>\<open>json.loads\<close> under the default limit of 4300 digits for the conversion
  of an integer, it raises \<^verbatim>\<open>ValueError\<close>, which is not a \<^verbatim>\<open>JSONDecodeError\<close>, on
  an integer literal of more digits. It rejects every other text with
  \<^verbatim>\<open>JSONDecodeError\<close>. Then an envelope around an answer, a world with a given
  credential and a given reply of the HTTP client, and coercions that accept a
  \<^verbatim>\<open>str\<close> as a str and a \<^verbatim>\<open>float\<close> as a float only.
\<close>

definition is_digit :: "char \<Rightarrow> bool" where
  "is_digit c \<longleftrightarrow> (let n = (of_char c :: nat) in 48 \<le> n \<and> n \<le> 57)"

definition demo_documents :: "(string \<times> pyval) list" where
  \<open>demo_documents =
     [(''{"name":"Oats"}'', PDict [(''name'', PStr ''Oats'')]),
      (''{"name":"Oats","per_100g":{}}'',
         PDict [(''name'', PStr ''Oats''), (''per_100g'', PDict [])]),
      (''{"name":"Oats","brand":"Acme","per_100g":{"protein_g":13}}'',
         PDict [(''name'', PStr ''Oats''), (''brand'', PStr ''Acme''),
                (''per_100g'', PDict [(''protein_g'', PInt 13)])]),
      (''{"name":"Oats","per_100g":[1]}'',
         PDict [(''name'', PStr ''Oats''), (''per_100g'', PList [PInt 1])]),
      (''[1]'', PList [PInt 1]),
      (''{}'', PDict [])]\<close>

definition demo_loads :: "string \<Rightarrow> loads_result" where
  "demo_loads s =
     (let core = strip_where json_ws s
      in if 4300 < length core \<and> list_all is_digit core \<and> \<not> startswith core ''0''
         then OtherException
         else (case map_of demo_documents core of
                 Some v \<Rightarrow> Parsed v
               | None \<Rightarrow> JSONDecodeError))"

definition envelope :: "pyval \<Rightarrow> pyval" where
  "envelope text_val =
     PDict [(''candidates'', PList [PDict [(''content'',
       PDict [(''parts'', PList [PDict [(''text'', text_val)]])])]])]"

definition demo_world :: "string option \<Rightarrow> post_result \<Rightarrow> world" where
  "demo_world key reply =
     \<lparr> getenv = (\<lambda>name. if name = ''GEMINI_API_KEY'' then key else None),
       post = (\<lambda>request. reply),
       loads = demo_loads \<rparr>"

definition answer :: "string \<Rightarrow> post_result" where
  "answer text_out =
     Response \<lparr> status_code = 200, resp_text = ''(envelope)'',
                resp_json = Parsed (envelope (PStr text_out)) \<rparr>"

definition strict_coercions :: coercions where
  "strict_coercions =
     \<lparr> to_str = (\<lambda>v. case v of PStr s \<Rightarrow> Some v | _ \<Rightarrow> None),
       to_float = (\<lambda>v. case v of PFloat x \<Rightarrow> Some v | _ \<Rightarrow> None) \<rparr>"

definition demo_request :: ParseLabelRequest where
  "demo_request = \<lparr> image_base64 = ''aGVsbG8='', label_type = Some ''nutrition'' \<rparr>"

section \<open>Strings\<close>

lemma dropWhile_all_then:
  assumes "\<forall>x\<in>set a. P x" "\<not> P y"
  shows "dropWhile P (a @ y # ys) = y # ys"
  using assms by (induction a) simp_all

lemma strip_where_core:
  assumes "\<forall>x\<in>set a. P x" "\<forall>x\<in>set b. P x" "core \<noteq> []" "\<not> P (hd core)" "\<not> P (last core)"
  shows "strip_where P (a @ core @ b) = core"
proof -
  obtain y ys where c1: "core = y # ys" using assms(3) by (cases core) auto
  obtain z zs where c2: "core = zs @ [z]" using assms(3) by (cases core rule: rev_cases) auto
  have l: "dropWhile P (a @ core @ b) = core @ b"
    using dropWhile_all_then[of a P y "ys @ b"] assms(1,4) c1 by simp
  have "\<forall>x\<in>set (rev b). P x" using assms(2) by simp
  then have "dropWhile P (rev b @ z # rev zs) = z # rev zs"
    using assms(5) c2 by (intro dropWhile_all_then) simp_all
  then have "dropWhile P (rev (core @ b)) = rev core" using c2 by simp
  with l show ?thesis by (simp add: strip_where_def lstrip_where_def rstrip_where_def)
qed

lemma strip_where_decomp:
  "\<exists>a b. s = a @ strip_where P s @ b \<and> (\<forall>x\<in>set a. P x) \<and> (\<forall>x\<in>set b. P x)"
proof -
  let ?t = "dropWhile P s"
  have 1: "s = takeWhile P s @ ?t" by simp
  have "rev (takeWhile P (rev ?t) @ dropWhile P (rev ?t)) = ?t"
    by (simp only: takeWhile_dropWhile_id rev_rev_ident)
  then have 2: "?t = strip_where P s @ rev (takeWhile P (rev ?t))"
    by (simp only: rev_append strip_where_def lstrip_where_def rstrip_where_def)
  have "s = takeWhile P s @ strip_where P s @ rev (takeWhile P (rev ?t))"
    using 1 2 by metis
  moreover have "\<forall>x\<in>set (takeWhile P s). P x" by (auto dest: set_takeWhileD)
  moreover have "\<forall>x\<in>set (rev (takeWhile P (rev ?t))). P x" by (auto dest: set_takeWhileD)
  ultimately show ?thesis by blast
qed

lemma json_ws_isspace: "json_ws c \<Longrightarrow> isspace c"
  by (auto simp: json_ws_def isspace_def)

lemma strip_of_json_text:
  assumes "core = strip_where json_ws s" "core \<noteq> []" "\<not> isspace (hd core)" "\<not> isspace (last core)"
  shows "strip s = core"
proof -
  obtain a b where s: "s = a @ strip_where json_ws s @ b"
    and a: "\<forall>x\<in>set a. json_ws x" and b: "\<forall>x\<in>set b. json_ws x"
    using strip_where_decomp[of s json_ws] by blast
  have "strip_where isspace (a @ core @ b) = core"
    using a b assms(2-4) by (intro strip_where_core) (auto intro: json_ws_isspace)
  with s assms(1) show ?thesis by (simp add: strip_def)
qed

lemma strip_idem_core:
  assumes "core \<noteq> []" "\<not> isspace (hd core)" "\<not> isspace (last core)"
  shows "strip core = core"
  using strip_where_core[of "[]" isspace "[]" core] assms by (simp add: strip_def)

lemma clean_text_no_fence:
  "\<not> startswith (strip s) ''```'' \<Longrightarrow> clean_text s = strip (strip s)"
  by (simp add: clean_text_def Let_def)

lemma isspace_backtick: "\<not> isspace (CHR ''`'')"
  by (simp add: isspace_def)

lemma lower_json_tag:
  assumes "lower tag = ''json''"
  shows "length tag = 4" and "hd tag \<noteq> CHR ''`''" and "tag \<noteq> []"
proof -
  have "length (lower tag) = length ''json''" using assms by (rule arg_cong)
  then have l: "length tag = 4" by (simp add: lower_def)
  then show "length tag = 4" .
  from l show ne: "tag \<noteq> []" by auto
  then obtain y ys where t: "tag = y # ys" by (cases tag) auto
  with assms have "lower_char y = CHR ''j''" by (simp add: lower_def)
  then have "y \<noteq> CHR ''`''" by (auto simp: lower_char_def)
  with t show "hd tag \<noteq> CHR ''`''" by simp
qed

lemma startswith_replicate:
  "3 \<le> n \<Longrightarrow> startswith (replicate n (CHR ''`'') @ s) ''```''"
proof -
  assume "3 \<le> n"
  then obtain k where "n = 3 + k" using le_Suc_ex by blast
  then have "replicate n (CHR ''`'') = ''```'' @ replicate k (CHR ''`'')"
    by (simp add: numeral_3_eq_3)
  then show ?thesis by (simp add: startswith_def)
qed

lemma clean_text_fenced:
  assumes ws: "\<forall>c\<in>set w1. isspace c" "\<forall>c\<in>set w2. isspace c"
              "\<forall>c\<in>set w3. isspace c" "\<forall>c\<in>set w4. isspace c"
    and n: "3 \<le> n"
    and tag: "lower tag = ''json''"
    and inner: "inner \<noteq> []" "hd inner = CHR ''{''" "last inner = CHR ''}''"
  shows "clean_text (w1 @ replicate n (CHR ''`'') @ tag @ w2 @ inner @ w3 @
                     replicate m (CHR ''`'') @ w4) = inner"
proof -
  let ?open = "replicate n (CHR ''`'')" and ?close = "replicate m (CHR ''`'')"
  let ?text = "w1 @ ?open @ tag @ w2 @ inner @ w3 @ ?close @ w4"
  let ?tick = "\<lambda>c. c \<in> set ''`''"
  note t = lower_json_tag[OF tag]
  have sp: "\<not> isspace (hd inner)" "\<not> isspace (last inner)"
    using inner by (simp_all add: isspace_def)
  have tk: "\<not> ?tick (hd inner)" "\<not> ?tick (last inner)"
    using inner by simp_all
  have open_ne: "?open \<noteq> []" using n by auto
  have hd_open: "hd (?open @ s) = CHR ''`''" for s using n by (cases n) auto
  \<comment> \<open>the text between the fences, as left by the first two strips\<close>
  have "\<exists>w3'. (\<forall>c\<in>set w3'. isspace c) \<and>
          strip_chars (strip ?text) ''`'' = tag @ w2 @ inner @ w3' \<and>
          startswith (strip ?text) ''```''"
  proof (cases "m = 0")
    case True
    let ?core = "?open @ tag @ w2 @ inner"
    have "strip_where isspace (w1 @ ?core @ (w3 @ w4)) = ?core"
      using ws inner open_ne hd_open[of "tag @ w2 @ inner"] sp
      by (intro strip_where_core) (auto simp: isspace_backtick)
    then have s1: "strip ?text = ?core" using True by (simp add: strip_def)
    have "strip_where ?tick (?open @ (tag @ w2 @ inner) @ []) = tag @ w2 @ inner"
      using t inner tk by (intro strip_where_core) auto
    then have "strip_chars ?core ''`'' = tag @ w2 @ inner @ []"
      by (simp add: strip_chars_def)
    with s1 show ?thesis using startswith_replicate[OF n] by (intro exI[of _ "[]"]) simp
  next
    case False
    let ?core = "?open @ tag @ w2 @ inner @ w3 @ ?close"
    have close_ne: "?close \<noteq> []" using False by auto
    have "last ?core = CHR ''`''" using False close_ne by (cases m) (auto simp: last_append)
    then have "strip_where isspace (w1 @ ?core @ w4) = ?core"
      using ws open_ne hd_open[of "tag @ w2 @ inner @ w3 @ ?close"]
      by (intro strip_where_core) (auto simp: isspace_backtick)
    then have s1: "strip ?text = ?core" by (simp add: strip_def)
    have lst: "\<not> ?tick (last (tag @ w2 @ inner @ w3))"
      using inner ws(3) isspace_backtick by (cases w3 rule: rev_cases) auto
    have "strip_where ?tick (?open @ (tag @ w2 @ inner @ w3) @ ?close) = tag @ w2 @ inner @ w3"
      using t lst by (intro strip_where_core) auto
    then have "strip_chars ?core ''`'' = tag @ w2 @ inner @ w3"
      by (simp add: strip_chars_def)
    with s1 show ?thesis using startswith_replicate[OF n] ws(3) by (intro exI[of _ w3]) simp
  qed
  then obtain w3' where w3': "\<forall>c\<in>set w3'. isspace c"
    and s2: "strip_chars (strip ?text) ''`'' = tag @ w2 @ inner @ w3'"
    and f: "startswith (strip ?text) ''```''" by blast
  have hint: "startswith (lower (tag @ w2 @ inner @ w3')) ''json''"
    using tag by (simp add: startswith_def lower_def)
  have cut: "slice_from (tag @ w2 @ inner @ w3') 4 = w2 @ inner @ w3'"
    using t(1) by (simp add: slice_from_def slice_bound_def)
  have "strip_where isspace (w2 @ inner @ w3') = inner"
    using ws(2) w3' inner(1) sp by (intro strip_where_core) auto
  then have "strip (w2 @ inner @ w3') = inner" by (simp add: strip_def)
  then show ?thesis using s2 f hint cut by (simp add: clean_text_def Let_def)
qed

lemma find_py_takeWhile:
  "find_py s c = (if c \<in> set s then int (length (takeWhile (\<lambda>x. x \<noteq> c) s)) else -1)"
  by (induction s) (auto simp: Let_def)

lemma rfind_takeWhile:
  "rfind s c = (if c \<in> set s
                then int (length s) - 1 - int (length (takeWhile (\<lambda>x. x \<noteq> c) (rev s)))
                else -1)"
  by (simp add: rfind_def find_py_takeWhile Let_def)

lemma takeWhile_length_lt:
  "\<exists>x\<in>set xs. \<not> P x \<Longrightarrow> length (takeWhile P xs) < length xs"
  by (induction xs) auto

text \<open>Scanning a list for the first \<open>a\<close> and the last \<open>b\<close>.\<close>

lemma scan_inside:
  fixes s :: "'a list"
  assumes ab: "a \<noteq> b" and b: "b \<in> set (dropWhile (\<lambda>x. x \<noteq> a) s)"
  defines "p \<equiv> takeWhile (\<lambda>x. x \<noteq> a) s"
    and "t \<equiv> dropWhile (\<lambda>x. x \<noteq> a) s"
    and "r \<equiv> length (takeWhile (\<lambda>x. x \<noteq> b) (rev s))"
  shows "a \<in> set s" and "b \<in> set s" and "r + 1 < length t"
    and "length s = length p + length t"
    and "take (length s - r) s = p @ rev (dropWhile (\<lambda>x. x \<noteq> b) (rev t))"
proof -
  have s: "s = p @ t" by (simp add: p_def t_def)
  have bt: "b \<in> set t" using b by (simp add: t_def)
  then have tne: "t \<noteq> []" by auto
  then have "dropWhile (\<lambda>x. x \<noteq> a) s \<noteq> []" by (simp add: t_def)
  then show ains: "a \<in> set s" by (simp add: dropWhile_eq_Nil_conv)
  show "b \<in> set s" using bt set_dropWhileD[of b "\<lambda>x. x \<noteq> a" s] by (simp add: t_def)
  show "length s = length p + length t" using arg_cong[OF s, of length] by simp
  have hd_t: "hd t = a" using hd_dropWhile[of "\<lambda>x. x \<noteq> a" s] tne by (simp add: t_def)
  have ex: "\<exists>x\<in>set (rev t). \<not> x \<noteq> b" using bt by simp
  have rs: "rev s = rev t @ rev p" using arg_cong[OF s, of rev] by simp
  have tw: "takeWhile (\<lambda>x. x \<noteq> b) (rev s) = takeWhile (\<lambda>x. x \<noteq> b) (rev t)"
    unfolding rs using ex by (simp add: takeWhile_append1 del: set_rev)
  have dw: "dropWhile (\<lambda>x. x \<noteq> b) (rev s) = dropWhile (\<lambda>x. x \<noteq> b) (rev t) @ rev p"
    unfolding rs using ex by (simp add: dropWhile_append1 del: set_rev)
  have r: "r = length (takeWhile (\<lambda>x. x \<noteq> b) (rev t))" by (simp only: r_def tw)
  have lt: "r < length t" using takeWhile_length_lt[OF ex] by (simp add: r)
  then have lt': "r < length (rev t)" by simp
  have "\<not> (rev t ! r \<noteq> b)"
    unfolding r by (rule nth_length_takeWhile) (use lt r in simp)
  then have "rev t ! r = b" by simp
  moreover have "rev t ! (length t - 1) = a"
    using hd_t tne by (simp add: rev_nth hd_conv_nth)
  ultimately have "r \<noteq> length t - 1" using ab by auto
  with lt show "r + 1 < length t" by simp
  have "take (length s - r) s = rev (drop r (rev s))" by (simp add: rev_drop)
  also have "drop r (rev s) = dropWhile (\<lambda>x. x \<noteq> b) (rev s)"
    by (simp only: r_def dropWhile_eq_drop)
  finally show "take (length s - r) s = p @ rev (dropWhile (\<lambda>x. x \<noteq> b) (rev t))"
    by (simp add: dw)
qed

lemma scan_outside:
  fixes s :: "'a list"
  assumes a: "a \<in> set s" and b: "b \<notin> set (dropWhile (\<lambda>x. x \<noteq> a) s)"
  shows "length (dropWhile (\<lambda>x. x \<noteq> a) s) \<le> length (takeWhile (\<lambda>x. x \<noteq> b) (rev s))"
    and "dropWhile (\<lambda>x. x \<noteq> a) s \<noteq> []"
proof -
  let ?p = "takeWhile (\<lambda>x. x \<noteq> a) s" and ?t = "dropWhile (\<lambda>x. x \<noteq> a) s"
  have "rev s = rev (?p @ ?t)" by simp
  then have rs: "rev s = rev ?t @ rev ?p" by (simp only: rev_append)
  have "\<forall>x\<in>set (rev ?t). x \<noteq> b" using b by auto
  then have "takeWhile (\<lambda>x. x \<noteq> b) (rev ?t @ rev ?p) = rev ?t @ takeWhile (\<lambda>x. x \<noteq> b) (rev ?p)"
    by (intro takeWhile_append2) auto
  then have "length (takeWhile (\<lambda>x. x \<noteq> b) (rev s)) = length ?t + length (takeWhile (\<lambda>x. x \<noteq> b) (rev ?p))"
    by (simp only: rs length_append length_rev)
  then show "length ?t \<le> length (takeWhile (\<lambda>x. x \<noteq> b) (rev s))" by simp
  show "?t \<noteq> []" using a by (simp add: dropWhile_eq_Nil_conv)
qed

lemma brace_scan_iff:
  "(find_py s (CHR ''{'') \<noteq> -1 \<and> rfind s (CHR ''}'') \<noteq> -1 \<and>
    rfind s (CHR ''}'') > find_py s (CHR ''{'')) \<longleftrightarrow> has_brace_pair s"
proof (cases "has_brace_pair s")
  case True
  then have b: "CHR ''}'' \<in> set (dropWhile (\<lambda>x. x \<noteq> CHR ''{'') s)"
    by (simp add: has_brace_pair_def)
  have ab: "CHR ''{'' \<noteq> CHR ''}''" by simp
  note f = scan_inside[OF ab b]
  have "find_py s (CHR ''{'') = int (length (takeWhile (\<lambda>x. x \<noteq> CHR ''{'') s))"
    using f(1) by (simp only: find_py_takeWhile if_True)
  moreover have "rfind s (CHR ''}'') =
      int (length s) - 1 - int (length (takeWhile (\<lambda>x. x \<noteq> CHR ''}'') (rev s)))"
    using f(2) by (simp only: rfind_takeWhile if_True)
  ultimately show ?thesis using True f(3,4) by simp
next
  case False
  then have b: "CHR ''}'' \<notin> set (dropWhile (\<lambda>x. x \<noteq> CHR ''{'') s)"
    by (simp add: has_brace_pair_def)
  show ?thesis
  proof (cases "CHR ''{'' \<in> set s \<and> CHR ''}'' \<in> set s")
    case True
    note g = scan_outside[OF conjunct1[OF True] b]
    have len: "length s = length (takeWhile (\<lambda>x. x \<noteq> CHR ''{'') s) +
                 length (dropWhile (\<lambda>x. x \<noteq> CHR ''{'') s)"
      using arg_cong[OF takeWhile_dropWhile_id[of "\<lambda>x. x \<noteq> CHR ''{''" s], of length, symmetric]
      by (simp only: length_append)
    have "find_py s (CHR ''{'') = int (length (takeWhile (\<lambda>x. x \<noteq> CHR ''{'') s))"
      using True by (simp only: find_py_takeWhile if_True)
    moreover have "rfind s (CHR ''}'') =
        int (length s) - 1 - int (length (takeWhile (\<lambda>x. x \<noteq> CHR ''}'') (rev s)))"
      using True by (simp only: rfind_takeWhile if_True)
    ultimately have "\<not> rfind s (CHR ''}'') > find_py s (CHR ''{'')"
      using g(1) len by linarith
    with False show ?thesis by simp
  next
    case False
    then have "find_py s (CHR ''{'') = -1 \<or> rfind s (CHR ''}'') = -1"
      by (auto simp: find_py_takeWhile rfind_takeWhile)
    with \<open>\<not> has_brace_pair s\<close> show ?thesis by auto
  qed
qed

lemma brace_scan_slice:
  assumes "has_brace_pair s"
  shows "py_slice s (find_py s (CHR ''{'')) (rfind s (CHR ''}'') + 1) = between_braces s"
proof -
  from assms have b: "CHR ''}'' \<in> set (dropWhile (\<lambda>x. x \<noteq> CHR ''{'') s)"
    by (simp add: has_brace_pair_def)
  have ab: "CHR ''{'' \<noteq> CHR ''}''" by simp
  note f = scan_inside[OF ab b]
  define r where "r = length (takeWhile (\<lambda>x. x \<noteq> CHR ''}'') (rev s))"
  define p where "p = takeWhile (\<lambda>x. x \<noteq> CHR ''{'') s"
  have st: "find_py s (CHR ''{'') = int (length p)"
    using f(1) by (simp only: find_py_takeWhile if_True p_def)
  have en: "rfind s (CHR ''}'') = int (length s) - 1 - int r"
    using f(2) by (simp only: rfind_takeWhile if_True r_def)
  have lt: "r + 1 < length (dropWhile (\<lambda>x. x \<noteq> CHR ''{'') s)" using f(3) by (simp only: r_def)
  have len: "length s = length p + length (dropWhile (\<lambda>x. x \<noteq> CHR ''{'') s)"
    using f(4) by (simp only: p_def)
  have tk: "take (length s - r) s = p @ between_braces s"
    using f(5) by (simp only: r_def p_def between_braces_def)
  have b1: "slice_bound (length s) (find_py s (CHR ''{'')) = length p"
    using len by (simp add: st slice_bound_def)
  have "rfind s (CHR ''}'') + 1 = int (length s - r)" using en lt len by simp
  then have b2: "slice_bound (length s) (rfind s (CHR ''}'') + 1) = length s - r"
    by (simp only: slice_bound_def) simp
  show ?thesis by (simp add: py_slice_def b1 b2 tk)
qed

section \<open>The pipeline\<close>

lemma slice_to_take: "0 \<le> b \<Longrightarrow> slice_to s b = take (nat b) s"
  by (simp add: slice_to_def slice_bound_def min_def)

lemma call_gemini_no_key:
  assumes "getenv w ''GEMINI_API_KEY'' = None \<or> getenv w ''GEMINI_API_KEY'' = Some []"
  shows "call_gemini w image_b64 lt = (Inl (HTTPException 500 ''GEMINI_API_KEY not set on server''), [])"
  using assms by (auto simp: call_gemini_def)

lemma call_gemini_reply:
  assumes "upstream_replies w req resp"
  shows "\<exists>k. getenv w ''GEMINI_API_KEY'' = Some k \<and> k \<noteq> [] \<and>
           call_gemini w (image_base64 req) (label_type_or_default req) =
             (read_response (loads w) resp,
              [gemini_request k (image_base64 req) (label_type_or_default req)])"
  using assms by (auto simp: upstream_replies_def call_gemini_def Let_def split: option.splits)

lemma call_gemini_answer:
  assumes "model_answers w req text_val"
  shows "fst (call_gemini w (image_base64 req) (label_type_or_default req)) =
           repair (loads w) text_val"
proof -
  from assms obtain k where k: "getenv w ''GEMINI_API_KEY'' = Some k" "k \<noteq> []"
    by (auto simp: model_answers_def split: option.splits)
  with assms obtain resp where
    p: "post w (gemini_request k (image_base64 req) (label_type_or_default req)) = Response resp"
    by (auto simp: model_answers_def split: post_result.splits)
  with assms k have s: "status_code resp = 200"
    by (simp add: model_answers_def)
  with assms k p obtain data where
    d: "resp_json resp = Parsed data" "envelope_text data = Some text_val"
    by (auto simp: model_answers_def split: loads_result.splits)
  have "upstream_replies w req resp" using k p by (simp add: upstream_replies_def)
  from call_gemini_reply[OF this] have
    "fst (call_gemini w (image_base64 req) (label_type_or_default req)) = read_response (loads w) resp"
    by auto
  with s d show ?thesis by (simp add: read_response_def)
qed

lemma parse_label_fst:
  "fst (parse_label w req) =
     (case fst (call_gemini w (image_base64 req) (label_type_or_default req)) of
        Inl e \<Rightarrow> Inl e | Inr parsed \<Rightarrow> normalize parsed)"
  by (simp add: parse_label_def split: prod.splits sum.splits)

lemma normalize_dict:
  "normalize (PDict d) =
     Inr (PDict [(''name'', case map_of d ''name'' of None \<Rightarrow> PNone | Some v \<Rightarrow> v),
                 (''serving_size_g'', case map_of d ''serving_size_g'' of None \<Rightarrow> PNone | Some v \<Rightarrow> v),
                 (''per_100g'', py_or (case map_of d ''per_100g'' of None \<Rightarrow> PNone | Some v \<Rightarrow> v) (PDict [])),
                 (''per_serving'', case map_of d ''per_serving'' of None \<Rightarrow> PNone | Some v \<Rightarrow> v),
                 (''notes'', case map_of d ''notes'' of None \<Rightarrow> PNone | Some v \<Rightarrow> v),
                 (''raw'', PDict d)])"
  by (simp add: normalize_def and_then_def Let_def)

lemma normalize_not_dict: "\<not> is_dict v \<Longrightarrow> normalize v = Inl AttributeError"
  by (cases v) (simp_all add: normalize_def and_then_def)

lemma seq_index_0: "seq_index xs 0 = (case xs of [] \<Rightarrow> None | x # _ \<Rightarrow> Some x)"
  by (cases xs) (simp_all add: seq_index_def)

lemma part_text: "getitem_key part ''text'' = None \<longleftrightarrow> \<not> part_has_text part"
  by (cases part) simp_all

lemma parts_text:
  "Option.bind (getitem_int parts 0) (\<lambda>part. getitem_key part ''text'') = None
     \<longleftrightarrow> \<not> parts_have_text parts"
proof (cases parts)
  case (PList xs)
  then show ?thesis by (cases xs) (simp_all add: seq_index_0 part_text)
next
  case (PStr cs)
  then show ?thesis by (cases cs) (simp_all add: seq_index_0)
qed simp_all

lemma content_text:
  "Option.bind (getitem_key content ''parts'') (\<lambda>parts.
     Option.bind (getitem_int parts 0) (\<lambda>part. getitem_key part ''text'')) = None
     \<longleftrightarrow> \<not> content_has_text content"
proof (cases content)
  case (PDict ct)
  then show ?thesis by (cases "map_of ct ''parts''") (simp_all add: parts_text)
qed simp_all

lemma candidate_text:
  "Option.bind (getitem_key candidate ''content'') (\<lambda>content.
     Option.bind (getitem_key content ''parts'') (\<lambda>parts.
     Option.bind (getitem_int parts 0) (\<lambda>part. getitem_key part ''text''))) = None
     \<longleftrightarrow> \<not> candidate_has_text candidate"
proof (cases candidate)
  case (PDict c)
  then show ?thesis by (cases "map_of c ''content''") (simp_all add: content_text)
qed simp_all

lemma candidates_text:
  "Option.bind (getitem_int candidates 0) (\<lambda>candidate.
     Option.bind (getitem_key candidate ''content'') (\<lambda>content.
     Option.bind (getitem_key content ''parts'') (\<lambda>parts.
     Option.bind (getitem_int parts 0) (\<lambda>part. getitem_key part ''text'')))) = None
     \<longleftrightarrow> \<not> candidates_have_text candidates"
proof (cases candidates)
  case (PList xs)
  then show ?thesis by (cases xs) (simp_all add: seq_index_0 candidate_text)
next
  case (PStr cs)
  then show ?thesis by (cases cs) (simp_all add: seq_index_0)
qed simp_all

lemma envelope_text_path: "envelope_text data = None \<longleftrightarrow> \<not> has_text_path data"
proof (cases data)
  case (PDict d)
  then show ?thesis
    by (cases "map_of d ''candidates''") (simp_all add: envelope_text_def candidates_text)
qed (simp_all add: envelope_text_def)

lemma parse_label_Inr:
  assumes "parse_label w req = (Inr resp, sent)"
  shows "\<exists>parsed. call_gemini w (image_base64 req) (label_type_or_default req) = (Inr parsed, sent)
           \<and> normalize parsed = Inr resp"
  using assms by (auto simp: parse_label_def split: prod.splits sum.splits)

lemma normalize_Inr_dict: "normalize parsed = Inr resp \<Longrightarrow> is_dict parsed"
  using normalize_not_dict[of parsed] by (cases "is_dict parsed") auto

lemma is_dict_ex: "is_dict v \<Longrightarrow> \<exists>d. v = PDict d"
  by (cases v) auto


lemma between_braces_object:
  assumes "CHR ''{'' \<notin> set before" and "CHR ''}'' \<notin> set after"
    and "obj \<noteq> []" and "hd obj = CHR ''{''" and "last obj = CHR ''}''"
  shows "between_braces (before @ obj @ after) = obj"
    and "has_brace_pair (before @ obj @ after)"
proof -
  obtain y ys where c1: "obj = y # ys" using assms(3) by (cases obj) auto
  obtain z zs where c2: "obj = zs @ [z]" using assms(3) by (cases obj rule: rev_cases) auto
  have y: "y = CHR ''{''" using assms(4) c1 by simp
  have z: "z = CHR ''}''" using assms(5) c2 by simp
  have "dropWhile (\<lambda>c. c \<noteq> CHR ''{'') (before @ y # (ys @ after)) = y # (ys @ after)"
    using assms(1) y by (intro dropWhile_all_then) auto
  then have l: "dropWhile (\<lambda>c. c \<noteq> CHR ''{'') (before @ obj @ after) = obj @ after"
    using c1 by simp
  have "dropWhile (\<lambda>c. c \<noteq> CHR ''}'') (rev after @ z # rev zs) = z # rev zs"
    using assms(2) z by (intro dropWhile_all_then) auto
  then have r: "dropWhile (\<lambda>c. c \<noteq> CHR ''}'') (rev (obj @ after)) = rev obj"
    using c2 by simp
  show "between_braces (before @ obj @ after) = obj"
    by (simp only: between_braces_def l r rev_rev_ident)
  have "CHR ''}'' \<in> set (obj @ after)" using c2 z by simp
  then show "has_brace_pair (before @ obj @ after)" by (simp only: has_brace_pair_def l)
qed

lemma parse_cleaned_brace_scan:
  assumes "loads_fn t = JSONDecodeError" and "has_brace_pair t"
  shows "parse_cleaned loads_fn t =
           (case loads_fn (between_braces t) of
              Parsed v \<Rightarrow> Inr v
            | JSONDecodeError \<Rightarrow> Inl (HTTPException 500 ''Failed to parse JSON from Gemini output'')
            | OtherException \<Rightarrow> Inl (HTTPException 500 ''Failed to parse JSON from Gemini output''))"
  using assms brace_scan_iff[of t] brace_scan_slice[OF assms(2)]
  by (simp add: parse_cleaned_def Let_def split: loads_result.splits)

lemma clean_text_plain:
  assumes "s \<noteq> []" and "\<not> isspace (hd s)" and "\<not> isspace (last s)" and "hd s \<noteq> CHR ''`''"
  shows "clean_text s = s"
proof -
  have st: "strip s = s" using strip_idem_core[OF assms(1-3)] .
  have "\<not> startswith s ''```''"
    using assms(1,4) by (cases s) (auto simp: startswith_def)
  then show ?thesis by (simp add: clean_text_def Let_def st)
qed

lemma parse_label_route_Inr:
  assumes "parse_label_route c w req = (Inr resp, sent)"
  shows "\<exists>content. parse_label w req = (Inr content, sent) \<and>
           ParseLabelResponse_validate c content = Inr resp"
  using assms by (auto simp: parse_label_route_def split: prod.splits sum.splits)

lemma validate_per_100g:
  assumes "ParseLabelResponse_validate c content = Inr resp"
  shows "\<exists>r m. content = PDict r \<and> field_value r ''per_100g'' (PDict []) = PDict m \<and>
           getitem_key resp ''per_100g'' = Some (PDict m)"
proof -
  from assms obtain r where r: "content = PDict r"
    by (cases content) (simp_all add: ParseLabelResponse_validate_def)
  from assms r obtain p where p: "dict_str_any (field_value r ''per_100g'' (PDict [])) = Some p"
    and g: "getitem_key resp ''per_100g'' = Some p"
    by (auto simp: ParseLabelResponse_validate_def bind_eq_Some_conv split: option.splits)
  from p obtain m where "field_value r ''per_100g'' (PDict []) = PDict m" "p = PDict m"
    by (cases "field_value r ''per_100g'' (PDict [])") simp_all
  with r g show ?thesis by blast
qed

section \<open>The fixtures\<close>

lemma demo_loads_skips_whitespace: "skips_json_whitespace demo_loads"
  unfolding skips_json_whitespace_def
proof (intro allI impI)
  fix s v
  assume a: "demo_loads s = Parsed v"
  define core where "core = strip_where json_ws s"
  from a have m: "map_of demo_documents core = Some v"
    by (simp add: demo_loads_def core_def Let_def split: option.splits if_splits)
  then have "(core, v) \<in> set demo_documents" by (rule map_of_SomeD)
  then have "core \<in> fst ` set demo_documents" by force
  then have k: "core \<noteq> [] \<and> \<not> isspace (hd core) \<and> \<not> isspace (last core) \<and>
                strip_where json_ws core = core \<and> \<not> 4300 < length core"
    by (auto simp: demo_documents_def isspace_def json_ws_def
          strip_where_def lstrip_where_def rstrip_where_def)
  then have "demo_loads core = Parsed v" using m by (simp add: demo_loads_def)
  with k show "let core = strip_where json_ws s
         in core \<noteq> [] \<and> \<not> isspace (hd core) \<and> \<not> isspace (last core) \<and>
            demo_loads core = Parsed v"
    by (simp add: core_def Let_def)
qed

lemma demo_world_answers:
  "k \<noteq> [] \<Longrightarrow> model_answers (demo_world (Some k) (answer t)) req (PStr t)"
  by (simp add: model_answers_def demo_world_def answer_def envelope_def envelope_text_def
        seq_index_def)

lemma demo_world_replies:
  "k \<noteq> [] \<Longrightarrow> upstream_replies (demo_world (Some k) (Response resp)) req resp"
  by (simp add: upstream_replies_def demo_world_def)

lemmas eval_strings = strip_def strip_chars_def strip_where_def lstrip_where_def
  rstrip_where_def startswith_def lower_def lower_char_def isspace_def json_ws_def
  slice_from_def slice_to_def py_slice_def slice_bound_def rfind_def
  has_brace_pair_def between_braces_def clean_text_def

lemmas eval_decode = demo_loads_def demo_documents_def

lemma long_integer:
  "clean_text (replicate 4301 (CHR ''1'')) = replicate 4301 (CHR ''1'')"
  "demo_loads (replicate 4301 (CHR ''1'')) = OtherException"
  "\<not> has_brace_pair (replicate 4301 (CHR ''1''))"
proof -
  let ?s = "replicate 4301 (CHR ''1'')"
  have ne: "?s \<noteq> []" by simp
  have h: "hd ?s = CHR ''1''" by (simp add: hd_replicate)
  have l: "last ?s = CHR ''1''" by (simp add: last_replicate)
  show "clean_text ?s = ?s"
    by (rule clean_text_plain) (simp_all add: h l isspace_def)
  have "strip_where json_ws ([] @ ?s @ []) = ?s"
    by (rule strip_where_core) (simp_all add: h l json_ws_def)
  then have c: "strip_where json_ws ?s = ?s" by simp
  have "\<not> startswith ?s ''0''"
    using ne h by (cases ?s) (auto simp: startswith_def)
  moreover have "list_all is_digit ?s" by (simp add: list_all_iff is_digit_def)
  ultimately show "demo_loads ?s = OtherException"
    by (simp add: demo_loads_def c Let_def)
  have "set (dropWhile (\<lambda>c. c \<noteq> CHR ''{'') ?s) \<subseteq> set ?s" by (rule set_dropWhileD[THEN subsetI])
  then show "\<not> has_brace_pair ?s" by (auto simp: has_brace_pair_def)
qed

lemma demo_call_oats:
  \<open>call_gemini (demo_world (Some ''secret'') (answer ''{"name":"Oats"}''))
      (image_base64 demo_request) (label_type_or_default demo_request)
     = (Inr (PDict [(''name'', PStr ''Oats'')]),
        [gemini_request ''secret'' ''aGVsbG8='' ''nutrition''])\<close>
proof -
  have c: \<open>clean_text ''{"name":"Oats"}'' = ''{"name":"Oats"}''\<close>
    by (simp add: eval_strings)
  have p: \<open>demo_loads ''{"name":"Oats"}'' = Parsed (PDict [(''name'', PStr ''Oats'')])\<close>
    by (simp add: eval_decode eval_strings)
  show ?thesis
    by (simp add: call_gemini_def demo_world_def answer_def read_response_def envelope_def
          envelope_text_def seq_index_def repair_def parse_cleaned_def c p demo_request_def
          label_type_or_default_def)
qed

section \<open>The claims\<close>

text \<open>
  Claim C1. A text that the decoder accepts, and that does not start with a code fence
  once trimmed, is repaired to the value that the decoder returns for the text itself:
  trimming removes nothing but the whitespace around the JSON value.
\<close>

theorem repair_direct_json:
  assumes "skips_json_whitespace loads_fn"
    and "loads_fn text_in = Parsed v"
    and "\<not> startswith (strip text_in) ''```''"
  shows "repair loads_fn (PStr text_in) = Inr v"
proof -
  define core where "core = strip_where json_ws text_in"
  have c: "core \<noteq> []" "\<not> isspace (hd core)" "\<not> isspace (last core)" "loads_fn core = Parsed v"
    using assms(1,2) unfolding skips_json_whitespace_def core_def by (auto simp: Let_def)
  have "strip text_in = core" using strip_of_json_text[OF core_def c(1-3)] .
  moreover have "strip core = core" using strip_idem_core[OF c(1-3)] .
  ultimately have "clean_text text_in = core" using assms(3) by (simp add: clean_text_no_fence)
  then show ?thesis using c(4) by (simp add: repair_def parse_cleaned_def)
qed

theorem repair_direct_json_witness:
  \<open>skips_json_whitespace demo_loads \<and>
   demo_loads (CHR 0x0A # '' {"name":"Oats"}  '') = Parsed (PDict [(''name'', PStr ''Oats'')]) \<and>
   \<not> startswith (strip (CHR 0x0A # '' {"name":"Oats"}  '')) ''```'' \<and>
   repair demo_loads (PStr (CHR 0x0A # '' {"name":"Oats"}  ''))
     = Inr (PDict [(''name'', PStr ''Oats'')])\<close>
proof -
  have p: \<open>demo_loads (CHR 0x0A # '' {"name":"Oats"}  '') = Parsed (PDict [(''name'', PStr ''Oats'')])\<close>
    by (simp add: eval_decode eval_strings)
  have f: \<open>\<not> startswith (strip (CHR 0x0A # '' {"name":"Oats"}  '')) ''```''\<close>
    by (simp add: eval_strings)
  show ?thesis
    using repair_direct_json[OF demo_loads_skips_whitespace p f] demo_loads_skips_whitespace p f
    by simp
qed

text \<open>
  Claim C2. A JSON object between an opening fence of at least three backticks with the
  hint \<^verbatim>\<open>json\<close> in any letter case and a closing run of backticks, with whitespace
  allowed before the fence, after the hint, after the object and after the closing run,
  is repaired to the value that the decoder returns for the object alone. The witness is
  the text of the specification, the object \<^verbatim>\<open>{"name":"Oats"}\<close> on a line of its own
  between \<^verbatim>\<open>```json\<close> and \<^verbatim>\<open>```\<close>.
\<close>

theorem repair_fenced_json:
  assumes "\<forall>c\<in>set lead. isspace c" and "\<forall>c\<in>set gap. isspace c"
    and "\<forall>c\<in>set gap'. isspace c" and "\<forall>c\<in>set trail. isspace c"
    and "3 \<le> n"
    and "lower tag = ''json''"
    and "inner \<noteq> []" and "hd inner = CHR ''{''" and "last inner = CHR ''}''"
    and "loads_fn inner = Parsed (PDict d)"
  shows "repair loads_fn
           (PStr (lead @ replicate n (CHR ''`'') @ tag @ gap @ inner @ gap' @
                  replicate m (CHR ''`'') @ trail))
         = Inr (PDict d)"
  using clean_text_fenced[OF assms(1-9), of m] assms(10)
  by (simp add: repair_def parse_cleaned_def)

theorem repair_fenced_json_witness:
  \<open>lower ''json'' = ''json'' \<and>
   demo_loads ''{"name":"Oats"}'' = Parsed (PDict [(''name'', PStr ''Oats'')]) \<and>
   repair demo_loads
     (PStr (''```json'' @ [CHR 0x0A] @ ''{"name":"Oats"}'' @ [CHR 0x0A] @ ''```''))
     = Inr (PDict [(''name'', PStr ''Oats'')])\<close>
proof -
  have ws: "\<forall>c\<in>set []. isspace c" "\<forall>c\<in>set [CHR 0x0A]. isspace c"
    by (simp_all add: isspace_def)
  have n: "(3::nat) \<le> 3" by simp
  have tag: "lower ''json'' = ''json''" by (simp add: lower_def lower_char_def)
  have inner: \<open>''{"name":"Oats"}'' \<noteq> []\<close> \<open>hd ''{"name":"Oats"}'' = CHR ''{''\<close>
    \<open>last ''{"name":"Oats"}'' = CHR ''}''\<close> by simp_all
  have p: \<open>demo_loads ''{"name":"Oats"}'' = Parsed (PDict [(''name'', PStr ''Oats'')])\<close>
    by (simp add: eval_decode eval_strings)
  show ?thesis
    using repair_fenced_json[where lead = "[]" and gap = "[CHR 0x0A]" and gap' = "[CHR 0x0A]"
            and trail = "[]" and n = 3 and m = 3 and tag = "''json''" and loads_fn = demo_loads,
            OF ws(1) ws(2) ws(2) ws(1) n tag inner p] tag p
    by (simp add: numeral_3_eq_3)
qed

text \<open>
  Claim C3, as stated, promises the parse of a valid JSON object that prose surrounds.
  The repair takes the text from the first opening brace to the last closing brace,
  whatever lies between: in \<^verbatim>\<open>a {} b {} c\<close> the object \<^verbatim>\<open>{}\<close> stands in prose, the
  text between the braces is \<^verbatim>\<open>{} b {}\<close>, and the repair fails.
\<close>

theorem repair_object_in_prose_counterexample:
  \<open>clean_text ''a {} b {} c'' = ''a '' @ ''{}'' @ '' b {} c'' \<and>
   demo_loads ''{}'' = Parsed (PDict []) \<and>
   demo_loads (clean_text ''a {} b {} c'') = JSONDecodeError \<and>
   between_braces (clean_text ''a {} b {} c'') = ''{} b {}'' \<and>
   repair demo_loads (PStr ''a {} b {} c'')
     = Inl (HTTPException 500 ''Failed to parse JSON from Gemini output'')\<close>
proof -
  have c: \<open>clean_text ''a {} b {} c'' = ''a {} b {} c''\<close> by (simp add: eval_strings)
  have f: \<open>demo_loads ''a {} b {} c'' = JSONDecodeError\<close>
    by (simp add: eval_decode eval_strings is_digit_def)
  have h: \<open>has_brace_pair ''a {} b {} c''\<close> by (simp add: has_brace_pair_def)
  have b: \<open>between_braces ''a {} b {} c'' = ''{} b {}''\<close> by (simp add: between_braces_def)
  have s: \<open>demo_loads ''{} b {}'' = JSONDecodeError\<close>
    by (simp add: eval_decode eval_strings is_digit_def)
  have p: \<open>demo_loads ''{}'' = Parsed (PDict [])\<close> by (simp add: eval_decode eval_strings)
  have \<open>repair demo_loads (PStr ''a {} b {} c'')
     = Inl (HTTPException 500 ''Failed to parse JSON from Gemini output'')\<close>
    using parse_cleaned_brace_scan[where loads_fn = demo_loads and t = "''a {} b {} c''", OF f h]
    by (simp add: repair_def c b s)
  with c f b p show ?thesis by simp
qed

text \<open>
  Claim C3, amended. When the decoder rejects the cleaned text with
  \<^verbatim>\<open>JSONDecodeError\<close> and the cleaned text is a text \<open>obj\<close> that starts with an
  opening and ends with a closing brace, with no opening brace before it and no closing
  brace after it, then \<open>obj\<close> is the text from the first opening to the last closing
  brace, and the repair decodes exactly \<open>obj\<close>: it returns the value of \<open>obj\<close> when the
  decoder accepts it and fails with status 500 otherwise. The witness is the sentence of
  the specification around the object \<^verbatim>\<open>{"name":"Oats","per_100g":{}}\<close>.
\<close>

theorem repair_object_in_prose:
  assumes "clean_text text_in = before @ obj @ after"
    and "CHR ''{'' \<notin> set before" and "CHR ''}'' \<notin> set after"
    and "obj \<noteq> []" and "hd obj = CHR ''{''" and "last obj = CHR ''}''"
    and "loads_fn (clean_text text_in) = JSONDecodeError"
  shows "has_brace_pair (clean_text text_in) \<and>
         between_braces (clean_text text_in) = obj \<and>
         repair loads_fn (PStr text_in) =
           (case loads_fn obj of
              Parsed v \<Rightarrow> Inr v
            | JSONDecodeError \<Rightarrow> Inl (HTTPException 500 ''Failed to parse JSON from Gemini output'')
            | OtherException \<Rightarrow> Inl (HTTPException 500 ''Failed to parse JSON from Gemini output''))"
proof -
  have b: "between_braces (clean_text text_in) = obj"
    and h: "has_brace_pair (clean_text text_in)"
    using between_braces_object[OF assms(2-6)] by (simp_all only: assms(1))
  have "repair loads_fn (PStr text_in) = parse_cleaned loads_fn (clean_text text_in)"
    by (simp add: repair_def)
  with parse_cleaned_brace_scan[where loads_fn = loads_fn and t = "clean_text text_in", OF assms(7) h] b h
  show ?thesis by simp
qed

theorem repair_object_in_prose_witness:
  \<open>clean_text ''Sure! {"name":"Oats","per_100g":{}} Hope that helps.''
     = ''Sure! '' @ ''{"name":"Oats","per_100g":{}}'' @ '' Hope that helps.'' \<and>
   demo_loads (clean_text ''Sure! {"name":"Oats","per_100g":{}} Hope that helps.'')
     = JSONDecodeError \<and>
   between_braces (clean_text ''Sure! {"name":"Oats","per_100g":{}} Hope that helps.'')
     = ''{"name":"Oats","per_100g":{}}'' \<and>
   demo_loads ''{"name":"Oats","per_100g":{}}''
     = Parsed (PDict [(''name'', PStr ''Oats''), (''per_100g'', PDict [])]) \<and>
   repair demo_loads (PStr ''Sure! {"name":"Oats","per_100g":{}} Hope that helps.'')
     = Inr (PDict [(''name'', PStr ''Oats''), (''per_100g'', PDict [])])\<close>
proof -
  have c: \<open>clean_text ''Sure! {"name":"Oats","per_100g":{}} Hope that helps.''
     = ''Sure! '' @ ''{"name":"Oats","per_100g":{}}'' @ '' Hope that helps.''\<close>
    by (simp add: eval_strings)
  have before: \<open>CHR ''{'' \<notin> set ''Sure! ''\<close> by simp
  have after: \<open>CHR ''}'' \<notin> set '' Hope that helps.''\<close> by simp
  have obj: \<open>''{"name":"Oats","per_100g":{}}'' \<noteq> []\<close>
    \<open>hd ''{"name":"Oats","per_100g":{}}'' = CHR ''{''\<close>
    \<open>last ''{"name":"Oats","per_100g":{}}'' = CHR ''}''\<close> by simp_all
  have f: \<open>demo_loads (clean_text ''Sure! {"name":"Oats","per_100g":{}} Hope that helps.'')
             = JSONDecodeError\<close>
    unfolding c by (simp add: eval_decode eval_strings is_digit_def)
  have p: \<open>demo_loads ''{"name":"Oats","per_100g":{}}''
             = Parsed (PDict [(''name'', PStr ''Oats''), (''per_100g'', PDict [])])\<close>
    by (simp add: eval_decode eval_strings)
  show ?thesis
    using repair_object_in_prose[where loads_fn = demo_loads, OF c before after obj f] c f p by simp
qed

text \<open>
  When the model answers with a text whose cleaned form the decoder rejects with
  \<^verbatim>\<open>JSONDecodeError\<close>, and the cleaned text has no brace pair, or has one and the
  decoder fails on the text between the braces, the operation fails with an HTTP exception
  of status 500: "No JSON found in Gemini output" without a brace pair, "Failed to parse
  JSON from Gemini output" with one.
\<close>

lemma brace_scan_failure:
  assumes "model_answers w req (PStr text_in)"
    and "loads w (clean_text text_in) = JSONDecodeError"
    and "\<not> has_brace_pair (clean_text text_in) \<or>
         (\<forall>v. loads w (between_braces (clean_text text_in)) \<noteq> Parsed v)"
  shows "fst (parse_label w req) =
           Inl (HTTPException 500
                  (if has_brace_pair (clean_text text_in)
                   then ''Failed to parse JSON from Gemini output''
                   else ''No JSON found in Gemini output''))"
proof -
  have r: "fst (parse_label w req) =
      (case parse_cleaned (loads w) (clean_text text_in) of Inl e \<Rightarrow> Inl e
       | Inr parsed \<Rightarrow> normalize parsed)"
    using call_gemini_answer[OF assms(1)] by (simp add: parse_label_fst repair_def)
  show ?thesis
  proof (cases "has_brace_pair (clean_text text_in)")
    case True
    with assms(3) have n: "\<forall>v. loads w (between_braces (clean_text text_in)) \<noteq> Parsed v"
      by simp
    have "parse_cleaned (loads w) (clean_text text_in) =
            Inl (HTTPException 500 ''Failed to parse JSON from Gemini output'')"
      using assms(2) True n brace_scan_iff[of "clean_text text_in"] brace_scan_slice[OF True]
      by (simp add: parse_cleaned_def Let_def split: loads_result.splits)
    with True r show ?thesis by simp
  next
    case False
    have "\<not> (find_py (clean_text text_in) (CHR ''{'') \<noteq> -1 \<and>
             rfind (clean_text text_in) (CHR ''}'') \<noteq> -1 \<and>
             rfind (clean_text text_in) (CHR ''}'') > find_py (clean_text text_in) (CHR ''{''))"
      using False by (simp only: brace_scan_iff not_False_eq_True)
    then have "parse_cleaned (loads w) (clean_text text_in) =
            Inl (HTTPException 500 ''No JSON found in Gemini output'')"
      using assms(2) by (auto simp: parse_cleaned_def Let_def)
    with False r show ?thesis by simp
  qed
qed

lemma brace_scan_failure_example:
  \<open>fst (parse_label (demo_world (Some ''secret'') (answer ''I cannot read this label.''))
          demo_request)
     = Inl (HTTPException 500 ''No JSON found in Gemini output'') \<and>
   fst (parse_label (demo_world (Some ''secret'') (answer ''Values: {calories: lots}''))
          demo_request)
     = Inl (HTTPException 500 ''Failed to parse JSON from Gemini output'')\<close>
proof -
  let ?w1 = \<open>demo_world (Some ''secret'') (answer ''I cannot read this label.'')\<close>
  let ?w2 = \<open>demo_world (Some ''secret'') (answer ''Values: {calories: lots}'')\<close>
  have k: "''secret'' \<noteq> []" by simp
  have c1: \<open>clean_text ''I cannot read this label.'' = ''I cannot read this label.''\<close>
    by (simp add: eval_strings)
  have c2: \<open>clean_text ''Values: {calories: lots}'' = ''Values: {calories: lots}''\<close>
    by (simp add: eval_strings)
  have f1: \<open>loads ?w1 (clean_text ''I cannot read this label.'') = JSONDecodeError\<close>
    unfolding c1 by (simp add: demo_world_def eval_decode eval_strings)
  have f2: \<open>loads ?w2 (clean_text ''Values: {calories: lots}'') = JSONDecodeError\<close>
    unfolding c2 by (simp add: demo_world_def eval_decode eval_strings)
  have b1: \<open>\<not> has_brace_pair (clean_text ''I cannot read this label.'')\<close>
    unfolding c1 by (simp add: has_brace_pair_def)
  have b2: \<open>has_brace_pair (clean_text ''Values: {calories: lots}'')\<close>
    unfolding c2 by (simp add: has_brace_pair_def)
  have n2: \<open>\<forall>v. loads ?w2 (between_braces (clean_text ''Values: {calories: lots}'')) \<noteq> Parsed v\<close>
    unfolding c2 by (simp add: demo_world_def between_braces_def eval_decode eval_strings)
  have h1: \<open>\<not> has_brace_pair (clean_text ''I cannot read this label.'') \<or>
         (\<forall>v. loads ?w1 (between_braces (clean_text ''I cannot read this label.'')) \<noteq> Parsed v)\<close>
    using b1 by simp
  have h2: \<open>\<not> has_brace_pair (clean_text ''Values: {calories: lots}'') \<or>
         (\<forall>v. loads ?w2 (between_braces (clean_text ''Values: {calories: lots}'')) \<noteq> Parsed v)\<close>
    using n2 by simp
  show ?thesis
    using brace_scan_failure[OF demo_world_answers[OF k] f1 h1, of demo_request]
          brace_scan_failure[OF demo_world_answers[OF k] f2 h2, of demo_request]
          b1 b2
    by simp
qed

text \<open>
  Claim C4 asks for that HTTP exception on every cleaned text that fails the direct parse.
  The handler of line 118 catches \<^verbatim>\<open>json.JSONDecodeError\<close> only, where the handler of
  line 125 catches every \<^verbatim>\<open>Exception\<close>. On an integer literal of 4301 digits, which
  has no brace, \<^verbatim>\<open>json.loads\<close> raises \<^verbatim>\<open>ValueError\<close>: no brace scan runs and the
  operation ends with an exception that nothing catches, not with the HTTP exception
  "No JSON found in Gemini output".
\<close>

theorem direct_parse_other_exception:
  \<open>\<not> has_brace_pair (clean_text (replicate 4301 (CHR ''1''))) \<and>
   demo_loads (clean_text (replicate 4301 (CHR ''1''))) = OtherException \<and>
   fst (parse_label (demo_world (Some ''secret'') (answer (replicate 4301 (CHR ''1''))))
          demo_request)
     = Inl DecoderException\<close>
proof -
  have k: "''secret'' \<noteq> []" by simp
  have "fst (call_gemini (demo_world (Some ''secret'') (answer (replicate 4301 (CHR ''1''))))
               (image_base64 demo_request) (label_type_or_default demo_request))
          = Inl DecoderException"
    using call_gemini_answer[OF demo_world_answers[OF k], of "replicate 4301 (CHR ''1'')" demo_request]
    by (simp add: repair_def parse_cleaned_def long_integer demo_world_def)
  then show ?thesis by (simp add: parse_label_fst long_integer)
qed

text \<open>
  Claim C5. Whenever the operation returns a response, the repaired value is an object
  and \<^verbatim>\<open>per_100g\<close> is present in the response and is a mapping; it is the empty mapping
  when the repaired object has no \<^verbatim>\<open>per_100g\<close> or a falsy one.
\<close>

theorem per_100g_is_mapping:
  assumes "parse_label_route c w req = (Inr resp, sent)"
  shows "\<exists>d m. call_gemini w (image_base64 req) (label_type_or_default req)
                  = (Inr (PDict d), sent) \<and>
           getitem_key resp ''per_100g'' = Some (PDict m) \<and>
           ((case map_of d ''per_100g'' of None \<Rightarrow> True | Some v \<Rightarrow> \<not> truthy v)
              \<longrightarrow> m = [])"
proof -
  from parse_label_route_Inr[OF assms] obtain content where
    h: "parse_label w req = (Inr content, sent)"
    and v: "ParseLabelResponse_validate c content = Inr resp" by blast
  from parse_label_Inr[OF h] obtain parsed where
    g: "call_gemini w (image_base64 req) (label_type_or_default req) = (Inr parsed, sent)"
    and n: "normalize parsed = Inr content" by blast
  from normalize_Inr_dict[OF n] obtain d where d: "parsed = PDict d" using is_dict_ex by blast
  from validate_per_100g[OF v] obtain r m where
    r: "content = PDict r" "field_value r ''per_100g'' (PDict []) = PDict m"
       "getitem_key resp ''per_100g'' = Some (PDict m)" by blast
  from n d r(1) have "map_of r ''per_100g'' =
      Some (py_or (case map_of d ''per_100g'' of None \<Rightarrow> PNone | Some v \<Rightarrow> v) (PDict []))"
    by (auto simp: normalize_dict)
  with r(2) have e: "PDict m = (case map_of d ''per_100g'' of
                        None \<Rightarrow> PDict []
                      | Some v \<Rightarrow> if truthy v then v else PDict [])"
    by (auto simp: field_value_def py_or_def split: option.splits)
  then have "(case map_of d ''per_100g'' of None \<Rightarrow> True | Some v \<Rightarrow> \<not> truthy v) \<longrightarrow> m = []"
    by (auto split: option.splits)
  with g d r(3) show ?thesis by blast
qed

theorem per_100g_is_mapping_witness:
  \<open>parse_label_route strict_coercions
      (demo_world (Some ''secret'') (answer ''{"name":"Oats"}'')) demo_request
     = (Inr (PDict [(''name'', PStr ''Oats''),
                    (''serving_size_g'', PNone),
                    (''per_100g'', PDict []),
                    (''per_serving'', PNone),
                    (''notes'', PNone),
                    (''raw'', PDict [(''name'', PStr ''Oats'')])]),
        [gemini_request ''secret'' ''aGVsbG8='' ''nutrition''])
   \<and> getitem_key (PDict [(''name'', PStr ''Oats''),
                    (''serving_size_g'', PNone),
                    (''per_100g'', PDict []),
                    (''per_serving'', PNone),
                    (''notes'', PNone),
                    (''raw'', PDict [(''name'', PStr ''Oats'')])]) ''per_100g''
       = Some (PDict [])\<close>
proof -
  have r: \<open>parse_label_route strict_coercions
      (demo_world (Some ''secret'') (answer ''{"name":"Oats"}'')) demo_request
     = (Inr (PDict [(''name'', PStr ''Oats''),
                    (''serving_size_g'', PNone),
                    (''per_100g'', PDict []),
                    (''per_serving'', PNone),
                    (''notes'', PNone),
                    (''raw'', PDict [(''name'', PStr ''Oats'')])]),
        [gemini_request ''secret'' ''aGVsbG8='' ''nutrition''])\<close>
    by (simp add: parse_label_route_def parse_label_def demo_call_oats normalize_dict py_or_def
          ParseLabelResponse_validate_def field_value_def optional_def strict_coercions_def)
  show ?thesis using per_100g_is_mapping[OF r] r by simp
qed

text \<open>
  The handler passes a truthy \<^verbatim>\<open>per_100g\<close> on as it is; when that is not a dict, as in
  the answer \<^verbatim>\<open>{"name":"Oats","per_100g":[1]}\<close>, the response model refuses it and the
  operation returns no response.
\<close>

lemma route_refuses_list_per_100g:
  \<open>fst (parse_label_route c
          (demo_world (Some ''secret'') (answer ''{"name":"Oats","per_100g":[1]}''))
          demo_request)
     = Inl ResponseValidationError\<close>
proof -
  have k: "''secret'' \<noteq> []" by simp
  have cl: \<open>clean_text ''{"name":"Oats","per_100g":[1]}'' = ''{"name":"Oats","per_100g":[1]}''\<close>
    by (simp add: eval_strings)
  have p: \<open>demo_loads ''{"name":"Oats","per_100g":[1]}''
             = Parsed (PDict [(''name'', PStr ''Oats''), (''per_100g'', PList [PInt 1])])\<close>
    by (simp add: eval_decode eval_strings)
  have \<open>fst (call_gemini (demo_world (Some ''secret'') (answer ''{"name":"Oats","per_100g":[1]}''))
               (image_base64 demo_request) (label_type_or_default demo_request))
          = Inr (PDict [(''name'', PStr ''Oats''), (''per_100g'', PList [PInt 1])])\<close>
    using call_gemini_answer[OF demo_world_answers[OF k], of \<open>''{"name":"Oats","per_100g":[1]}''\<close> demo_request]
    by (simp add: repair_def parse_cleaned_def cl p demo_world_def)
  then have \<open>fst (parse_label (demo_world (Some ''secret'') (answer ''{"name":"Oats","per_100g":[1]}''))
          demo_request)
     = Inr (PDict [(''name'', PStr ''Oats''),
                   (''serving_size_g'', PNone),
                   (''per_100g'', PList [PInt 1]),
                   (''per_serving'', PNone),
                   (''notes'', PNone),
                   (''raw'', PDict [(''name'', PStr ''Oats''), (''per_100g'', PList [PInt 1])])])\<close>
    by (simp add: parse_label_fst normalize_dict py_or_def)
  then show ?thesis
    by (cases \<open>parse_label (demo_world (Some ''secret'') (answer ''{"name":"Oats","per_100g":[1]}''))
          demo_request\<close>)
       (simp add: parse_label_route_def ParseLabelResponse_validate_def field_value_def
          split: option.splits)
qed

text \<open>
  Claim C6. When \<^verbatim>\<open>GEMINI_API_KEY\<close> is unset or empty, \<^verbatim>\<open>call_gemini\<close> and
  \<^verbatim>\<open>parse_label\<close> fail with an HTTP exception of status 500 (the ConfigurationError of
  the specification), and no request has been handed to the HTTP client.
\<close>

theorem missing_credential:
  assumes "getenv w ''GEMINI_API_KEY'' = None \<or> getenv w ''GEMINI_API_KEY'' = Some []"
  shows "call_gemini w image_b64 label_type_arg =
           (Inl (HTTPException 500 ''GEMINI_API_KEY not set on server''), []) \<and>
         parse_label w req =
           (Inl (HTTPException 500 ''GEMINI_API_KEY not set on server''), [])"
  using call_gemini_no_key[OF assms] by (simp add: parse_label_def)

theorem missing_credential_witness:
  \<open>parse_label (demo_world None (answer ''{"name":"Oats"}'')) demo_request
     = (Inl (HTTPException 500 ''GEMINI_API_KEY not set on server''), []) \<and>
   parse_label (demo_world (Some []) (answer ''{"name":"Oats"}'')) demo_request
     = (Inl (HTTPException 500 ''GEMINI_API_KEY not set on server''), [])\<close>
proof -
  have a: \<open>getenv (demo_world None (answer ''{"name":"Oats"}'')) ''GEMINI_API_KEY'' = None \<or>
           getenv (demo_world None (answer ''{"name":"Oats"}'')) ''GEMINI_API_KEY'' = Some []\<close>
    by (simp add: demo_world_def)
  have b: \<open>getenv (demo_world (Some []) (answer ''{"name":"Oats"}'')) ''GEMINI_API_KEY'' = None \<or>
           getenv (demo_world (Some []) (answer ''{"name":"Oats"}'')) ''GEMINI_API_KEY'' = Some []\<close>
    by (simp add: demo_world_def)
  show ?thesis
    using missing_credential[OF a, of "image_base64 demo_request" "label_type_or_default demo_request" demo_request]
          missing_credential[OF b, of "image_base64 demo_request" "label_type_or_default demo_request" demo_request]
    by simp
qed

text \<open>
  Claim C7. When the upstream model replies with a status other than 200, the operation
  fails with an HTTP exception that carries the upstream status and whose detail ends with
  the first 500 characters of the upstream body (the whole body when it is shorter). The
  witness is the reply 429 with the body "rate limited".
\<close>

theorem upstream_error:
  assumes "upstream_replies w req resp" and "status_code resp \<noteq> 200"
  shows "fst (parse_label w req) =
           Inl (HTTPException (status_code resp)
                  (''Gemini error: '' @ take 500 (resp_text resp)))"
proof -
  from call_gemini_reply[OF assms(1)] have
    "fst (call_gemini w (image_base64 req) (label_type_or_default req))
       = read_response (loads w) resp" by auto
  then show ?thesis using assms(2)
    by (simp add: parse_label_fst read_response_def slice_to_take)
qed

theorem upstream_error_witness:
  \<open>fst (parse_label
          (demo_world (Some ''secret'')
             (Response \<lparr> status_code = 429, resp_text = ''rate limited'',
                          resp_json = JSONDecodeError \<rparr>))
          demo_request)
     = Inl (HTTPException 429 ''Gemini error: rate limited'')\<close>
proof -
  have k: "''secret'' \<noteq> []" by simp
  have s: "status_code \<lparr> status_code = 429, resp_text = ''rate limited'',
                          resp_json = JSONDecodeError \<rparr> \<noteq> 200" by simp
  show ?thesis using upstream_error[OF demo_world_replies[OF k] s, of demo_request] by simp
qed

text \<open>
  Claim C8. When \<^verbatim>\<open>call_gemini\<close> returns an object, \<^verbatim>\<open>parse_label\<close> returns a
  response whose \<^verbatim>\<open>raw\<close> is that object, with every key and value of it, recognised or
  not. The witness has the unrecognised key \<^verbatim>\<open>brand\<close>.
\<close>

theorem raw_is_repaired_object:
  assumes "call_gemini w (image_base64 req) (label_type_or_default req) = (Inr (PDict d), sent)"
  shows "\<exists>r. parse_label w req = (Inr (PDict r), sent) \<and> map_of r ''raw'' = Some (PDict d)"
  using assms by (simp add: parse_label_def normalize_dict)

theorem raw_is_repaired_object_witness:
  \<open>call_gemini
      (demo_world (Some ''secret'')
         (answer ''{"name":"Oats","brand":"Acme","per_100g":{"protein_g":13}}''))
      (image_base64 demo_request) (label_type_or_default demo_request)
     = (Inr (PDict [(''name'', PStr ''Oats''), (''brand'', PStr ''Acme''),
                    (''per_100g'', PDict [(''protein_g'', PInt 13)])]),
        [gemini_request ''secret'' ''aGVsbG8='' ''nutrition'']) \<and>
   (\<exists>r. parse_label
           (demo_world (Some ''secret'')
              (answer ''{"name":"Oats","brand":"Acme","per_100g":{"protein_g":13}}''))
           demo_request
          = (Inr (PDict r), [gemini_request ''secret'' ''aGVsbG8='' ''nutrition'']) \<and>
        map_of r ''raw''
          = Some (PDict [(''name'', PStr ''Oats''), (''brand'', PStr ''Acme''),
                         (''per_100g'', PDict [(''protein_g'', PInt 13)])]))\<close>
proof -
  have c: \<open>clean_text ''{"name":"Oats","brand":"Acme","per_100g":{"protein_g":13}}''
             = ''{"name":"Oats","brand":"Acme","per_100g":{"protein_g":13}}''\<close>
    by (simp add: eval_strings)
  have p: \<open>demo_loads ''{"name":"Oats","brand":"Acme","per_100g":{"protein_g":13}}''
             = Parsed (PDict [(''name'', PStr ''Oats''), (''brand'', PStr ''Acme''),
                    (''per_100g'', PDict [(''protein_g'', PInt 13)])])\<close>
    by (simp add: eval_decode eval_strings)
  have g: \<open>call_gemini
      (demo_world (Some ''secret'')
         (answer ''{"name":"Oats","brand":"Acme","per_100g":{"protein_g":13}}''))
      (image_base64 demo_request) (label_type_or_default demo_request)
     = (Inr (PDict [(''name'', PStr ''Oats''), (''brand'', PStr ''Acme''),
                    (''per_100g'', PDict [(''protein_g'', PInt 13)])]),
        [gemini_request ''secret'' ''aGVsbG8='' ''nutrition''])\<close>
    by (simp add: call_gemini_def demo_world_def answer_def read_response_def envelope_def
          envelope_text_def seq_index_def repair_def parse_cleaned_def c p demo_request_def
          label_type_or_default_def)
  show ?thesis using raw_is_repaired_object[OF g] g by simp
qed

text \<open>
  When the upstream model replies with status 200 and a JSON body without the path
  \<^verbatim>\<open>candidates[0].content.parts[0].text\<close>, the operation fails with the HTTP exception
  "Unexpected Gemini response format" of status 500.
\<close>

lemma missing_path_gives_500:
  assumes "upstream_replies w req resp" and "status_code resp = 200"
    and "resp_json resp = Parsed data" and "\<not> has_text_path data"
  shows "fst (parse_label w req) = Inl (HTTPException 500 ''Unexpected Gemini response format'')"
proof -
  from call_gemini_reply[OF assms(1)] have
    "fst (call_gemini w (image_base64 req) (label_type_or_default req))
       = read_response (loads w) resp" by auto
  moreover have "envelope_text data = None" using assms(4) by (simp add: envelope_text_path)
  ultimately show ?thesis using assms(2,3)
    by (simp add: parse_label_fst read_response_def)
qed

lemma missing_path_gives_500_example:
  \<open>\<not> has_text_path (PDict [(''candidates'', PList [])]) \<and>
   fst (parse_label
          (demo_world (Some ''secret'')
             (Response \<lparr> status_code = 200, resp_text = ''{"candidates": []}'',
                          resp_json = Parsed (PDict [(''candidates'', PList [])]) \<rparr>))
          demo_request)
     = Inl (HTTPException 500 ''Unexpected Gemini response format'')\<close>
proof -
  have k: "''secret'' \<noteq> []" by simp
  have s: \<open>status_code \<lparr> status_code = 200, resp_text = ''{"candidates": []}'',
                          resp_json = Parsed (PDict [(''candidates'', PList [])]) \<rparr> = 200\<close>
    by simp
  have j: \<open>resp_json \<lparr> status_code = 200, resp_text = ''{"candidates": []}'',
                          resp_json = Parsed (PDict [(''candidates'', PList [])]) \<rparr>
            = Parsed (PDict [(''candidates'', PList [])])\<close>
    by simp
  have n: "\<not> has_text_path (PDict [(''candidates'', PList [])])" by simp
  show ?thesis
    using missing_path_gives_500[OF demo_world_replies[OF k] s j n, of demo_request] n
    by simp
qed

text \<open>
  Claim C9 asks for that HTTP exception on every reply of status 200 that lacks the path.
  \<^verbatim>\<open>resp.json()\<close> on line 100 stands before the \<^verbatim>\<open>try\<close> of line 101: when the body
  of the reply is not JSON, it raises, nothing catches the exception, and the operation
  does not end with the HTTP exception "Unexpected Gemini response format".
\<close>

theorem non_json_body_uncaught:
  \<open>fst (parse_label
          (demo_world (Some ''secret'')
             (Response \<lparr> status_code = 200, resp_text = ''<html>Service Unavailable</html>'',
                          resp_json = JSONDecodeError \<rparr>))
          demo_request)
     = Inl DecoderException\<close>
proof -
  have k: "''secret'' \<noteq> []" by simp
  from call_gemini_reply[OF demo_world_replies[OF k], of
      "\<lparr> status_code = 200, resp_text = ''<html>Service Unavailable</html>'',
         resp_json = JSONDecodeError \<rparr>" demo_request]
  show ?thesis by (auto simp: parse_label_fst read_response_def)
qed

text \<open>
  Claim C10. When the model's answer is repaired to a value that is not an object, the
  operation returns no response and raises none of its HTTP exceptions: the first
  \<^verbatim>\<open>parsed.get\<close> raises \<^verbatim>\<open>AttributeError\<close>, which nothing catches.
\<close>

theorem non_object_unhandled:
  assumes "model_answers w req text_val"
    and "repair (loads w) text_val = Inr v"
    and "\<not> is_dict v"
  shows "fst (parse_label w req) = Inl AttributeError \<and>
         (\<forall>resp. fst (parse_label w req) \<noteq> Inr resp) \<and>
         (\<forall>code message. fst (parse_label w req) \<noteq> Inl (HTTPException code message))"
proof -
  have "fst (parse_label w req) = Inl AttributeError"
    using call_gemini_answer[OF assms(1)] assms(2) normalize_not_dict[OF assms(3)]
    by (simp add: parse_label_fst)
  then show ?thesis by simp
qed

theorem non_object_unhandled_witness:
  \<open>repair demo_loads (PStr ''[1]'') = Inr (PList [PInt 1]) \<and> \<not> is_dict (PList [PInt 1]) \<and>
   fst (parse_label (demo_world (Some ''secret'') (answer ''[1]'')) demo_request)
     = Inl AttributeError\<close>
proof -
  have k: "''secret'' \<noteq> []" by simp
  have c: \<open>clean_text ''[1]'' = ''[1]''\<close> by (simp add: eval_strings)
  have p: \<open>demo_loads ''[1]'' = Parsed (PList [PInt 1])\<close>
    by (simp add: eval_decode eval_strings)
  have r: \<open>repair demo_loads (PStr ''[1]'') = Inr (PList [PInt 1])\<close>
    by (simp add: repair_def parse_cleaned_def c p)
  have r': \<open>repair (loads (demo_world (Some ''secret'') (answer ''[1]''))) (PStr ''[1]'')
              = Inr (PList [PInt 1])\<close>
    using r by (simp add: demo_world_def)
  have n: "\<not> is_dict (PList [PInt 1])" by simp
  show ?thesis
    using non_object_unhandled[OF demo_world_answers[OF k] r' n, of demo_request] r n
    by simp
qed


end
